theory Spec2Isabelle
  imports Main "HOL-Library.Sublist"
begin

section \<open>JavaScript strings and numbers\<close>

text \<open>
  Strings are lists of code units; the development only needs the code units below 256.
  The white space of \<^verbatim>\<open>String.prototype.trim\<close> and of \<^verbatim>\<open>parseInt\<close> in that range is
  TAB, LF, VT, FF, CR, SPACE and NBSP.
\<close>

definition js_whitespace :: "char \<Rightarrow> bool" where
  "js_whitespace c =
     (c = CHR 0x09 \<or> c = CHR 0x0A \<or> c = CHR 0x0B \<or> c = CHR 0x0C \<or> c = CHR 0x0D
      \<or> c = CHR 0x20 \<or> c = CHR 0xA0)"

definition trim :: "string \<Rightarrow> string" where
  "trim s = rev (dropWhile js_whitespace (rev (dropWhile js_whitespace s)))"

text \<open>\<^verbatim>\<open>s.split(sep)\<close> for a separator of one code unit: the result is never empty.\<close>

fun split_on :: "char \<Rightarrow> string \<Rightarrow> string list" where
  "split_on sep [] = [[]]"
| "split_on sep (c # cs) =
     (if c = sep then [] # split_on sep cs
      else (case split_on sep cs of
              [] \<Rightarrow> [[c]]
            | p # ps \<Rightarrow> (c # p) # ps))"

text \<open>\<^verbatim>\<open>haystack.includes(needle)\<close>.\<close>

fun js_includes :: "string \<Rightarrow> string \<Rightarrow> bool" where
  "js_includes [] needle = (needle = [])"
| "js_includes (c # cs) needle = (prefix needle (c # cs) \<or> js_includes cs needle)"

text \<open>A template literal prints an absent value as \<^verbatim>\<open>undefined\<close>.\<close>

definition js_str :: "string option \<Rightarrow> string" where
  "js_str v = (case v of None \<Rightarrow> ''undefined'' | Some s \<Rightarrow> s)"

text \<open>An absent or empty string is falsy.\<close>

definition falsy :: "string option \<Rightarrow> bool" where
  "falsy v = (case v of None \<Rightarrow> True | Some s \<Rightarrow> s = [])"

subsection \<open>Decimal text of a number\<close>

definition digit_char :: "nat \<Rightarrow> char" where
  "digit_char d = char_of (48 + d)"

fun show_nat :: "nat \<Rightarrow> string" where
  "show_nat n = (if n < 10 then [digit_char n] else show_nat (n div 10) @ [digit_char (n mod 10)])"

declare show_nat.simps [simp del]

definition show_int :: "int \<Rightarrow> string" where
  "show_int i = (if i < 0 then CHR ''-'' # show_nat (nat (- i)) else show_nat (nat i))"

definition is_digit :: "char \<Rightarrow> bool" where
  "is_digit c = (let n = of_char c :: nat in 48 \<le> n \<and> n \<le> 57)"

subsection \<open>parseInt\<close>

text \<open>
  \<^verbatim>\<open>parseInt(string)\<close> with no radix: leading white space is skipped, one sign is read,
  a prefix \<^verbatim>\<open>0x\<close> or \<^verbatim>\<open>0X\<close> selects radix 16, and the longest run of digits of the radix
  is the number; no digit at all is \<^verbatim>\<open>NaN\<close>, here \<open>None\<close>. The result is the mathematical
  integer, which a JavaScript number holds exactly up to \<open>2 ^ 53\<close>.
\<close>

definition digit_in :: "nat \<Rightarrow> char \<Rightarrow> nat option" where
  "digit_in radix c =
     (let n = of_char c :: nat;
          v = (if 48 \<le> n \<and> n \<le> 57 then Some (n - 48)
               else if 97 \<le> n \<and> n \<le> 122 then Some (n - 87)
               else if 65 \<le> n \<and> n \<le> 90 then Some (n - 55)
               else None)
      in case v of None \<Rightarrow> None | Some d \<Rightarrow> if d < radix then Some d else None)"

definition radix_value :: "nat \<Rightarrow> string \<Rightarrow> nat" where
  "radix_value radix z = foldl (\<lambda>acc c. acc * radix + (case digit_in radix c of None \<Rightarrow> 0 | Some d \<Rightarrow> d)) 0 z"

definition parseInt :: "string \<Rightarrow> int option" where
  "parseInt str =
     (let s = dropWhile js_whitespace str;
          negative = (s \<noteq> [] \<and> hd s = CHR ''-'');
          s1 = (if s \<noteq> [] \<and> (hd s = CHR ''+'' \<or> hd s = CHR ''-'') then tl s else s);
          hex = (take 2 s1 = ''0x'' \<or> take 2 s1 = ''0X'');
          s2 = (if hex then drop 2 s1 else s1);
          radix = (if hex then 16 else 10);
          z = takeWhile (\<lambda>c. digit_in radix c \<noteq> None) s2
      in if z = [] then None
         else Some ((if negative then - 1 else 1) * int (radix_value radix z)))"

subsection \<open>Durations\<close>

text \<open>
  The store reports durations in milliseconds. They are kept here as a whole number of
  ten-thousandths of a millisecond, the precision that \<^verbatim>\<open>toFixed(4)\<close> prints.
\<close>

type_synonym duration = nat

definition toFixed4 :: "duration \<Rightarrow> string" where
  "toFixed4 d =
     (let frac = show_nat (d mod 10000)
      in show_nat (d div 10000) @ ''.'' @ replicate (4 - length frac) CHR ''0'' @ frac)"

section \<open>Configuration (CONFIG of hono.config, in src/unnamed/part_003)\<close>

definition CORE_VERSION :: string where
  "CORE_VERSION = ''1.0.0''"

section \<open>Database wrapper (class Database, src/src/core/database.ts)\<close>

text \<open>
  A thrown value is an \<^verbatim>\<open>Error\<close> with its message. A call that may throw returns
  \<open>js_error + 'a\<close>, with \<open>Inl\<close> the thrown error.
\<close>

datatype js_error = Error (message: string)

text \<open>A result row: its columns with their values, as text.\<close>

type_synonym row = "(string \<times> string) list"

record D1Meta =
  duration :: duration
  changes :: nat
  last_row_id :: nat
  served_by :: string

text \<open>
  The store behind the wrapper (a D1 database) is not part of the repository: it is a
  parameter. Each of its calls either throws or answers; the writing calls also return
  the store's next state \<open>'st\<close>. A duration that the store leaves out is \<open>None\<close>.
  \<^item> \<open>d1_exec\<close>: \<^verbatim>\<open>db.exec(statement)\<close>, answering the duration;
  \<^item> \<open>d1_batch\<close>: \<^verbatim>\<open>db.batch(statements.map(prepare))\<close>, answering one duration for each
    result;
  \<^item> \<open>d1_first\<close>: \<^verbatim>\<open>db.prepare(query).bind(...params).first()\<close>, a row or \<^verbatim>\<open>null\<close>;
  \<^item> \<open>d1_all\<close>: \<^verbatim>\<open>db.prepare(query).bind(...params).all()\<close>, its \<^verbatim>\<open>results\<close> field when
    it has one;
  \<^item> \<open>d1_run\<close>: \<^verbatim>\<open>db.prepare(query).bind(...params).run()\<close>, its \<^verbatim>\<open>meta\<close> field when it
    has one.
\<close>

record 'st D1Database =
  d1_exec :: "string \<Rightarrow> 'st \<Rightarrow> (js_error + duration option) \<times> 'st"
  d1_batch :: "string list \<Rightarrow> 'st \<Rightarrow> (js_error + duration option list) \<times> 'st"
  d1_first :: "string \<Rightarrow> string list \<Rightarrow> 'st \<Rightarrow> js_error + row option"
  d1_all :: "string \<Rightarrow> string list \<Rightarrow> 'st \<Rightarrow> js_error + row list option"
  d1_run :: "string \<Rightarrow> string list \<Rightarrow> 'st \<Rightarrow> (js_error + D1Meta option) \<times> 'st"

text \<open>
  What \<open>raw\<close> returns: the field \<^verbatim>\<open>success\<close> is absent for an empty text, and
  \<^verbatim>\<open>error\<close> is present only on failure.
\<close>

record RawResult =
  count :: nat
  duration :: duration
  success :: "bool option"
  error :: "string option"

definition splitStatements :: "string \<Rightarrow> string list" where
  "splitStatements sql = filter (\<lambda>s. length s > 0) (map trim (split_on CHR '';'' sql))"

definition or_zero :: "duration option \<Rightarrow> duration" where
  "or_zero d = (case d of None \<Rightarrow> 0 | Some n \<Rightarrow> n)"

text \<open>
  \<open>raw\<close> catches whatever the store throws and reports it in the result, so it never
  throws itself; its result is still typed as a call that may.
\<close>

definition raw :: "'st D1Database \<Rightarrow> string \<Rightarrow> 'st \<Rightarrow> (js_error + RawResult) \<times> 'st" where
  "raw db sql st =
     (if sql = [] \<or> trim sql = [] then
        (Inr \<lparr>count = 0, duration = 0, success = None, error = None\<rparr>, st)
      else
        let statements = splitStatements sql in
        if length statements = 1 then
          (case d1_exec db (statements ! 0) st of
             (Inr res, st') \<Rightarrow>
               (Inr \<lparr>count = 1, duration = or_zero res, success = Some True, error = None\<rparr>, st')
           | (Inl e, st') \<Rightarrow>
               (Inr \<lparr>count = 0, duration = 0, success = Some False, error = Some (message e)\<rparr>, st'))
        else
          (case d1_batch db statements st of
             (Inr batchResults, st') \<Rightarrow>
               (Inr \<lparr>count = length batchResults,
                     duration = foldl (\<lambda>acc curr. acc + or_zero curr) 0 batchResults,
                     success = Some True, error = None\<rparr>, st')
           | (Inl e, st') \<Rightarrow>
               (Inr \<lparr>count = 0, duration = 0, success = Some False, error = Some (message e)\<rparr>, st')))"

definition findOne :: "'st D1Database \<Rightarrow> string \<Rightarrow> string list \<Rightarrow> 'st \<Rightarrow> js_error + row option" where
  "findOne db query params st =
     (case d1_first db query params st of
        Inr r \<Rightarrow> Inr r
      | Inl e \<Rightarrow> Inr None)"

definition findAll :: "'st D1Database \<Rightarrow> string \<Rightarrow> string list \<Rightarrow> 'st \<Rightarrow> js_error + row list" where
  "findAll db query params st =
     (case d1_all db query params st of
        Inr results \<Rightarrow> Inr (case results of None \<Rightarrow> [] | Some rs \<Rightarrow> rs)
      | Inl e \<Rightarrow> Inr [])"

definition shim_meta :: D1Meta where
  "shim_meta = \<lparr>D1Meta.duration = 0, changes = 0, last_row_id = 0, served_by = ''shim''\<rparr>"

definition run :: "'st D1Database \<Rightarrow> string \<Rightarrow> string list \<Rightarrow> 'st \<Rightarrow> (js_error + D1Meta) \<times> 'st" where
  "run db query params st =
     (case d1_run db query params st of
        (Inr meta, st') \<Rightarrow> (Inr (case meta of None \<Rightarrow> shim_meta | Some m \<Rightarrow> m), st')
      | (Inl e, st') \<Rightarrow> (Inl (Error (''Database run error: '' @ message e)), st'))"

section \<open>Registry (class Registry, src/src/core/registry.ts)\<close>

record AdminMenuItem =
  title :: string
  path :: string
  category :: string
  icon :: "string option"
  order :: "int option"

record MigrationSchema =
  slug :: string
  version :: string
  sql :: string
  schema :: "string option"

text \<open>
  The static fields of the class, as one state that every operation takes and returns.
  The two tables are maps from their keys; a key that was never written is \<open>None\<close>
  (the property names that an object literal inherits, such as \<^verbatim>\<open>constructor\<close>, are
  not keys of the model).
  The field \<^verbatim>\<open>translations\<close> is named \<open>translationsTable\<close>.
\<close>

record Registry =
  menus :: "AdminMenuItem list"
  schemas :: "MigrationSchema list"
  templates :: "string \<rightharpoonup> string"
  activeTheme :: string
  pluginList :: "string list"
  systemLogs :: "string list"
  translationsTable :: "string \<rightharpoonup> (string \<rightharpoonup> string)"

definition initial_registry :: Registry where
  "initial_registry =
     \<lparr>menus = [], schemas = [], templates = Map.empty, activeTheme = ''nebula'',
      pluginList = [], systemLogs = [],
      translationsTable = [''en'' \<mapsto> Map.empty, ''id'' \<mapsto> Map.empty]\<rparr>"

text \<open>\<^verbatim>\<open>value || null\<close> on an optional string: an absent or empty string gives \<^verbatim>\<open>null\<close>.\<close>

definition or_null :: "string option \<Rightarrow> string option" where
  "or_null v = (if falsy v then None else v)"

subsection \<open>System log\<close>

text \<open>
  The clock is a parameter of every operation that logs: \<open>time\<close> is the \<^verbatim>\<open>HH:MM:SS\<close> part
  of the ISO text of the current instant.
\<close>

definition log :: "Registry \<Rightarrow> string \<Rightarrow> string \<Rightarrow> Registry" where
  "log r time message =
     (let logEntry = ''['' @ time @ ''] '' @ message
      in r\<lparr>systemLogs := systemLogs r @ [logEntry]\<rparr>)"
  for message


subsection \<open>Menus\<close>

definition registerMenu :: "Registry \<Rightarrow> AdminMenuItem \<Rightarrow> Registry" where
  "registerMenu r menu = r\<lparr>menus := menus r @ [menu]\<rparr>"

definition getMenus :: "Registry \<Rightarrow> string option \<Rightarrow> AdminMenuItem list" where
  "getMenus r category =
     (if \<not> falsy category then filter (\<lambda>m. Some (AdminMenuItem.category m) = category) (menus r)
      else menus r)"
  for category

subsection \<open>Schemas\<close>

definition registerSchema :: "Registry \<Rightarrow> string \<Rightarrow> string \<Rightarrow> string \<Rightarrow> string \<Rightarrow> Registry" where
  "registerSchema r time slug version sql =
     log (r\<lparr>schemas := schemas r @ [\<lparr>slug = slug, version = version, sql = sql, schema = Some sql\<rparr>]\<rparr>)
         time (''Schema registered: '' @ slug @ '' v'' @ version)"
  for slug version sql

definition getSchemas :: "Registry \<Rightarrow> MigrationSchema list" where
  "getSchemas r = schemas r"

definition getSchema :: "Registry \<Rightarrow> string \<Rightarrow> MigrationSchema option" where
  "getSchema r slug = find (\<lambda>s. MigrationSchema.slug s = slug) (schemas r)"
  for slug

subsection \<open>Themes and views\<close>

definition getThemeView :: "Registry \<Rightarrow> string \<Rightarrow> string \<Rightarrow> string option" where
  "getThemeView r theme view =
     (let key = theme @ '':'' @ view in or_null (templates r key))"

definition registerThemeView :: "Registry \<Rightarrow> string \<Rightarrow> string \<Rightarrow> string \<Rightarrow> Registry" where
  "registerThemeView r theme view html =
     (let r1 = r\<lparr>templates := (templates r)(theme @ '':'' @ view \<mapsto> html)\<rparr>
      in if view = ''landing'' then r1\<lparr>templates := (templates r1)(''landing'' \<mapsto> html)\<rparr>
         else r1)"

definition registerView :: "Registry \<Rightarrow> string \<Rightarrow> string \<Rightarrow> Registry" where
  "registerView r name html = r\<lparr>templates := (templates r)(name \<mapsto> html)\<rparr>"

definition getView :: "Registry \<Rightarrow> string \<Rightarrow> string option" where
  "getView r view =
     (let themeScoped = activeTheme r @ '':'' @ view
      in if \<not> falsy (templates r themeScoped) then templates r themeScoped
         else or_null (templates r view))"

definition setActiveTheme :: "Registry \<Rightarrow> string \<Rightarrow> string \<Rightarrow> Registry" where
  "setActiveTheme r time name = log (r\<lparr>activeTheme := name\<rparr>) time (''Theme switched to: '' @ name)"

definition getActiveThemeName :: "Registry \<Rightarrow> string" where
  "getActiveThemeName r = activeTheme r"

subsection \<open>Plugins\<close>



subsection \<open>Translations\<close>



definition getTranslations :: "Registry \<Rightarrow> string \<Rightarrow> (string \<rightharpoonup> string)" where
  "getTranslations r locale =
     (case translationsTable r locale of
        None \<Rightarrow> Map.empty
      | Some m \<Rightarrow> m)"

section \<open>Manifest Validator (class Validator, in src/src/core/database.ts)\<close>

text \<open>
  A manifest as the validator reads it: every field it destructures may be absent.
  The field \<^verbatim>\<open>type\<close> is named \<open>mType\<close>, as the validator binds it.
\<close>

record ModuleManifest =
  slug :: "string option"
  version :: "string option"
  mType :: "string option"
  requires :: "string option"

record PasPagesModule =
  manifest :: "ModuleManifest option"

record ValidationResult =
  isValid :: bool
  error :: "string option"

definition invalid :: "string \<Rightarrow> ValidationResult" where
  "invalid msg = \<lparr>isValid = False, error = Some msg\<rparr>"

text \<open>
  \<^verbatim>\<open>isCompatible\<close>, with the core version it compares against as a parameter. The first
  element of a split always exists; \<^verbatim>\<open>NaN === NaN\<close> is false, so two failed parses are
  incompatible. Nothing in the \<^verbatim>\<open>try\<close> block raises on strings, so the \<^verbatim>\<open>catch\<close> branch
  (which returns false) is never taken.
\<close>

definition first_part :: "string list \<Rightarrow> string" where
  "first_part parts = (case parts of [] \<Rightarrow> ''undefined'' | p # _ \<Rightarrow> p)"

definition isCompatible_with :: "string \<Rightarrow> string \<Rightarrow> bool" where
  "isCompatible_with coreVersion requiredVersion =
     (let coreParts = split_on CHR ''.'' coreVersion;
          reqParts = split_on CHR ''.'' requiredVersion;
          coreMajor = parseInt (first_part coreParts);
          reqMajor = parseInt (first_part reqParts)
      in case (coreMajor, reqMajor) of
           (Some a, Some b) \<Rightarrow> a = b
         | _ \<Rightarrow> False)"

definition isCompatible :: "string \<Rightarrow> bool" where
  "isCompatible requiredVersion = isCompatible_with CORE_VERSION requiredVersion"

definition validate :: "PasPagesModule option \<Rightarrow> string option \<Rightarrow> ValidationResult" where
  "validate module type =
     (case module of
        None \<Rightarrow> invalid ''Manifest is missing or module is undefined''
      | Some m \<Rightarrow>
          (case manifest m of
             None \<Rightarrow> invalid ''Manifest is missing or module is undefined''
           | Some mf \<Rightarrow>
               if falsy (slug mf) \<or> falsy (version mf) then
                 invalid (''Invalid manifest structure in ''
                          @ (if falsy (slug mf) then ''unknown'' else js_str (slug mf)))
               else if mType mf \<noteq> type then
                 invalid (''Type mismatch for '' @ js_str (slug mf) @ ''. Expected ''
                          @ js_str type @ '', got '' @ js_str (mType mf))
               else if falsy (requires mf) then
                 invalid (''STRICT MODE: Module '' @ js_str (slug mf)
                          @ '' MUST define '' @ [CHR 0x27] @ ''requires'' @ [CHR 0x27] @ '' version.'')
               else if \<not> isCompatible (js_str (requires mf)) then
                 invalid (''Incompatible Version. '' @ js_str (slug mf) @ '' requires v''
                          @ js_str (requires mf) @ '', Core is v'' @ CORE_VERSION)
               else \<lparr>isValid = True, error = None\<rparr>))"



section \<open>Migration engine (class Migrator, src/unnamed/part_002)\<close>

text \<open>The three query texts of the migrator, as written in the source.\<close>

definition create_migrations_sql :: string where
  "create_migrations_sql =
     ''\<newline>'' @
     ''                CREATE TABLE IF NOT EXISTS _migrations (\<newline>'' @
     ''                    id INTEGER PRIMARY KEY AUTOINCREMENT,\<newline>'' @
     ''                    slug TEXT NOT NULL,\<newline>'' @
     ''                    version TEXT NOT NULL,\<newline>'' @
     ''                    applied_at DATETIME DEFAULT CURRENT_TIMESTAMP,\<newline>'' @
     ''                    UNIQUE(slug, version)\<newline>'' @
     ''                );\<newline>'' @
     ''            ''"

definition select_migration_sql :: string where
  "select_migration_sql = ''SELECT id FROM _migrations WHERE slug = ? AND version = ?''"

definition insert_migration_sql :: string where
  "insert_migration_sql = ''INSERT INTO _migrations (slug, version) VALUES (?, ?)''"

definition initSystem :: "'st D1Database \<Rightarrow> 'st \<Rightarrow> (js_error + unit) \<times> 'st" where
  "initSystem db st =
     (case run db create_migrations_sql [] st of
        (Inr _, st') \<Rightarrow> (Inr (), st')
      | (Inl e, st') \<Rightarrow> (Inl (Error (''Migration System Init Failed: '' @ message e)), st'))"

text \<open>
  The body of the \<^verbatim>\<open>try\<close> block of \<open>applyMigration\<close>: \<open>Inl\<close> is an error thrown inside
  it, which the \<^verbatim>\<open>catch\<close> clause of \<open>applyMigration\<close> turns into an outcome text.
\<close>

definition applyMigration_try ::
    "'st D1Database \<Rightarrow> string \<Rightarrow> string \<Rightarrow> string \<Rightarrow> 'st \<Rightarrow> (js_error + string) \<times> 'st" where
  "applyMigration_try db slug version sql st =
     (case findOne db select_migration_sql [slug, version] st of
        Inl e \<Rightarrow> (Inl e, st)
      | Inr exists \<Rightarrow>
          if exists \<noteq> None then
            (Inr (''[SKIP] '' @ slug @ '' v'' @ version @ '' is already applied.''), st)
          else
            (case raw db sql st of
               (Inl e, st1) \<Rightarrow> (Inl e, st1)
             | (Inr result, st1) \<Rightarrow>
                 if success result = Some False then
                   (Inr (''[ERROR] SQL Execution failed for '' @ slug @ '' v'' @ version @ '': ''
                         @ (if falsy (RawResult.error result) then ''Unknown error''
                            else js_str (RawResult.error result))),
                    st1)
                 else
                   (case run db insert_migration_sql [slug, version] st1 of
                      (Inl e, st2) \<Rightarrow> (Inl e, st2)
                    | (Inr _, st2) \<Rightarrow>
                        (Inr (''[SUCCESS] '' @ slug @ '' v'' @ version @ '' applied in ''
                              @ toFixed4 (duration result) @ ''ms''), st2))))"
  for slug version sql

definition applyMigration ::
    "'st D1Database \<Rightarrow> string \<Rightarrow> string \<Rightarrow> string \<Rightarrow> 'st \<Rightarrow> (js_error + string) \<times> 'st" where
  "applyMigration db slug version sql st =
     (case applyMigration_try db slug version sql st of
        (Inr outcome, st') \<Rightarrow> (Inr outcome, st')
      | (Inl e, st') \<Rightarrow> (Inr (''[ERROR] Fatal failure for '' @ slug @ '': '' @ message e), st'))"
  for slug version sql

text \<open>The three kinds of outcome text.\<close>

definition is_SUCCESS :: "string \<Rightarrow> bool" where
  "is_SUCCESS outcome = prefix ''[SUCCESS]'' outcome"

definition is_SKIP :: "string \<Rightarrow> bool" where
  "is_SKIP outcome = prefix ''[SKIP]'' outcome"

definition is_ERROR :: "string \<Rightarrow> bool" where
  "is_ERROR outcome = prefix ''[ERROR]'' outcome"

section \<open>View engine (class ViewEngine, in src/src/core/security.ts)\<close>

text \<open>What a handler answers: \<^verbatim>\<open>c.html(body, status)\<close>, \<^verbatim>\<open>c.redirect(location)\<close>, or the
  \<^verbatim>\<open>c.json\<close> answer of the migration sweep with its \<^verbatim>\<open>success\<close> flag (when it has one)
  and its \<^verbatim>\<open>logs\<close>.\<close>

datatype response =
    Html string nat
  | Redirect string
  | JsonLogs "bool option" "string list" nat

text \<open>The values of a data bag, and \<^verbatim>\<open>String(value)\<close>.\<close>

datatype jsval = Str string | Num int | Arr "string list"

fun join :: "string \<Rightarrow> string list \<Rightarrow> string" where
  "join sep [] = []"
| "join sep [x] = x"
| "join sep (x # y # ys) = x @ sep @ join sep (y # ys)"

fun String_of :: "jsval \<Rightarrow> string" where
  "String_of (Str s) = s"
| "String_of (Num n) = show_int n"
| "String_of (Arr xs) = join '','' xs"

text \<open>
  An object is the list of its properties in the order \<^verbatim>\<open>Object.keys\<close> lists them.
  Setting a property keeps the place of a key that is there and appends a new one, as the
  spread \<^verbatim>\<open>{ ...data, key: value }\<close> does for a key that is not an array index.
\<close>

fun obj_put :: "(string \<times> 'v) list \<Rightarrow> string \<Rightarrow> 'v \<Rightarrow> (string \<times> 'v) list" where
  "obj_put [] key v = [(key, v)]"
| "obj_put ((k, w) # rest) key v =
     (if k = key then (k, v) # rest else (k, w) # obj_put rest key v)"

subsection \<open>Replacement texts\<close>

text \<open>
  The replacement text of \<^verbatim>\<open>String.prototype.replace\<close> is a template: \<^verbatim>\<open>$$\<close> stands for a
  dollar sign, \<^verbatim>\<open>$&\<close> for the matched text, \<^verbatim>\<open>$`\<close> for the text before the match and
  \<^verbatim>\<open>$'\<close> for the text after it. The patterns here have no groups, so \<^verbatim>\<open>$1\<close> and the
  like stand for themselves.
\<close>

fun expand_replacement :: "string \<Rightarrow> string \<Rightarrow> string \<Rightarrow> string \<Rightarrow> string" where
  "expand_replacement matched pre post [] = []"
| "expand_replacement matched pre post [c] = [c]"
| "expand_replacement matched pre post (c # d # rest) =
     (if c = CHR ''$'' then
        (if d = CHR ''$'' then CHR ''$'' # expand_replacement matched pre post rest
         else if d = CHR ''&'' then matched @ expand_replacement matched pre post rest
         else if d = CHR 0x60 then pre @ expand_replacement matched pre post rest
         else if d = CHR 0x27 then post @ expand_replacement matched pre post rest
         else c # expand_replacement matched pre post (d # rest))
      else c # expand_replacement matched pre post (d # rest))"

text \<open>
  \<^verbatim>\<open>s.replace(pattern, replacement)\<close> for a pattern that is a string: the first
  occurrence only. \<open>pre\<close> is the text already passed.
\<close>

fun replace_first :: "string \<Rightarrow> string \<Rightarrow> string \<Rightarrow> string \<Rightarrow> string" where
  "replace_first pat rep pre [] =
     (if pat = [] then expand_replacement [] pre [] rep else [])"
| "replace_first pat rep pre (c # cs) =
     (if prefix pat (c # cs) then
        expand_replacement pat pre (drop (length pat) (c # cs)) rep @ drop (length pat) (c # cs)
      else c # replace_first pat rep (pre @ [c]) cs)"

text \<open>
  \<^verbatim>\<open>s.replace(regex, replacement)\<close> for a global regular expression that matches one fixed
  text \<open>pat\<close>: every occurrence, from left to right, without overlap. The fixed text of
  a placeholder is never empty.
\<close>

function replace_all :: "string \<Rightarrow> string \<Rightarrow> string \<Rightarrow> string \<Rightarrow> string" where
  "replace_all pat rep pre s =
     (if s = [] \<or> pat = [] then s
      else if prefix pat s then
        expand_replacement pat pre (drop (length pat) s) rep
        @ replace_all pat rep (pre @ pat) (drop (length pat) s)
      else hd s # replace_all pat rep (pre @ [hd s]) (tl s))"
  by pat_completeness auto
termination
  by (relation "measure (\<lambda>(pat, rep, pre, s). length s)") auto

declare replace_all.simps [simp del]

subsection \<open>Placeholder patterns\<close>

text \<open>
  \<^verbatim>\<open>new RegExp(`{{${key}}}`, 'g')\<close> puts the key into the pattern as it is. The pattern
  matches exactly the text \<^verbatim>\<open>{{key}}\<close> when the key has no character of the pattern
  syntax and is not the body of a braced quantifier (\<^verbatim>\<open>{{2}}\<close> reads as a brace repeated
  twice). Other keys give another pattern or a syntax error; that part of the pattern
  language is not modelled, and \<open>placeholder\<close> is \<open>None\<close> there.
\<close>

definition pattern_syntax :: "char list" where
  "pattern_syntax = ''^$.*+?()[]{}|'' @ [CHR 0x5C]"

definition braced_quantifier_body :: "string \<Rightarrow> bool" where
  "braced_quantifier_body key =
     (let ds = takeWhile is_digit key; r = dropWhile is_digit key
      in ds \<noteq> [] \<and> (r = [] \<or> (hd r = CHR '','' \<and> list_all is_digit (tl r))))"

definition literal_key :: "string \<Rightarrow> bool" where
  "literal_key key = (list_all (\<lambda>c. c \<notin> set pattern_syntax) key \<and> \<not> braced_quantifier_body key)"

definition placeholder :: "string \<Rightarrow> string option" where
  "placeholder key = (if literal_key key then Some (''{{'' @ key @ ''}}'') else None)"

subsection \<open>render\<close>

text \<open>The loop over \<^verbatim>\<open>Object.keys(finalData)\<close>, one replacement for each key in turn.\<close>

fun substitute :: "(string \<times> jsval) list \<Rightarrow> string \<Rightarrow> string option" where
  "substitute [] template = Some template"
| "substitute ((key, v) # rest) template =
     (case placeholder key of
        None \<Rightarrow> None
      | Some regex \<Rightarrow> substitute rest (replace_all regex (String_of v) [] template))"

text \<open>
  \<open>render\<close>, with the year of the clock as a parameter. The result is \<open>None\<close> only where a
  key of the data is outside the modelled patterns.
\<close>

definition render :: "Registry \<Rightarrow> int \<Rightarrow> string \<Rightarrow> (string \<times> jsval) list \<Rightarrow> response option" where
  "render r year viewName data =
     (let template = getView r viewName in
      if falsy template then
        Some (Html (''<h1>Error: View '' @ [CHR 0x27] @ viewName @ [CHR 0x27] @ '' not found in ''
                    @ [CHR 0x27] @ getActiveThemeName r @ [CHR 0x27] @ ''</h1>'') 500)
      else
        let finalData = obj_put (obj_put data ''theme_name'' (Str (getActiveThemeName r)))
                                ''year'' (Num year)
        in map_option (\<lambda>html. Html html 200) (substitute finalData (js_str template)))"

subsection \<open>Templates as text and placeholders\<close>

text \<open>
  What the substitution is meant to do, stated on a template that is given as its pieces:
  runs of text and placeholders \<^verbatim>\<open>{{key}}\<close>. \<open>flatten\<close> is the template's text, and
  \<open>fill\<close> puts the value of a key of the data in the place of its placeholder and
  leaves every other piece as it is.
\<close>

datatype piece = Lit string | Hole string

fun flatten :: "piece list \<Rightarrow> string" where
  "flatten [] = []"
| "flatten (Lit t # ps) = t @ flatten ps"
| "flatten (Hole k # ps) = ''{{'' @ k @ ''}}'' @ flatten ps"

fun fill :: "(string \<times> jsval) list \<Rightarrow> piece \<Rightarrow> piece" where
  "fill data (Lit t) = Lit t"
| "fill data (Hole k) = (case map_of data k of None \<Rightarrow> Hole k | Some v \<Rightarrow> Lit (String_of v))"

text \<open>
  The pieces are told apart by the braces: a run of text has no opening brace, and the
  key of a placeholder has no brace.
\<close>

fun separated :: "piece \<Rightarrow> bool" where
  "separated (Lit t) = (CHR ''{'' \<notin> set t)"
| "separated (Hole k) = (CHR ''{'' \<notin> set k \<and> CHR ''}'' \<notin> set k)"

text \<open>A value whose text has no dollar sign and no opening brace.\<close>

definition plain_text :: "string \<Rightarrow> bool" where
  "plain_text s = (CHR ''$'' \<notin> set s \<and> CHR ''{'' \<notin> set s)"

text \<open>One replacement of the loop, on the pieces.\<close>

fun fill_one :: "string \<Rightarrow> string \<Rightarrow> piece \<Rightarrow> piece" where
  "fill_one k sv (Lit t) = Lit t"
| "fill_one k sv (Hole k') = (if k' = k then Lit sv else Hole k')"

section \<open>Migration sweep (admin routes, src/unnamed/part_003)\<close>

text \<open>The line that the sweep logs for an outcome text, coloured by its kind.\<close>

definition outcome_line :: "string \<Rightarrow> string" where
  "outcome_line result =
     (if js_includes result ''[ERROR]'' then
        ''<span style=\"color: #ff4444;\">'' @ result @ ''</span>''
      else if js_includes result ''[SKIP]'' then
        ''<span style=\"color: #888;\">'' @ result @ ''</span>''
      else
        ''<span style=\"color: #00ff9d;\">'' @ result @ ''</span>'')"

text \<open>The fixed lines of the sweep's log.\<close>

definition ready_line :: string where
  "ready_line = ''<span style=\"color: #00ff9d;\">[SYSTEM] Migration Engine Ready.</span>''"

definition no_schemas_line :: string where
  "no_schemas_line = ''<span>[INFO] No pending schemas found.</span>''"

definition fatal_line :: "js_error \<Rightarrow> string" where
  "fatal_line err = ''<span style=\"color: #ff4444;\">[FATAL] '' @ message err @ ''</span>''"

text \<open>
  The loop over the registered schemas. An error thrown by \<open>applyMigration\<close> would leave
  the loop for the \<^verbatim>\<open>catch\<close> clause of the handler: the result holds that error, if any,
  and the lines logged so far.
\<close>

fun migrate_schemas ::
    "'st D1Database \<Rightarrow> MigrationSchema list \<Rightarrow> string list \<Rightarrow> 'st
      \<Rightarrow> (js_error option \<times> string list) \<times> 'st" where
  "migrate_schemas db [] logs st = ((None, logs), st)"
| "migrate_schemas db (s # rest) logs st =
     (case applyMigration db (MigrationSchema.slug s) (MigrationSchema.version s) (sql s) st of
        (Inl e, st') \<Rightarrow> ((Some e, logs), st')
      | (Inr result, st') \<Rightarrow> migrate_schemas db rest (logs @ [outcome_line result]) st')"

text \<open>
  The handler of \<^verbatim>\<open>POST /admin/system/migrate\<close>; the binding \<^verbatim>\<open>CORE_DB\<close> may be missing.
\<close>

definition system_migrate :: "'st D1Database option \<Rightarrow> Registry \<Rightarrow> 'st \<Rightarrow> response \<times> 'st" where
  "system_migrate core_db r st =
     (case core_db of
        None \<Rightarrow> (JsonLogs (Some False) [''[CRITICAL] D1 Database not connected''] 500, st)
      | Some db \<Rightarrow>
          (case initSystem db st of
             (Inl err, st1) \<Rightarrow>
               (JsonLogs None [fatal_line err] 200, st1)
           | (Inr _, st1) \<Rightarrow>
               let logs = [ready_line];
                   schemas = getSchemas r;
                   logs = (if length schemas = 0
                           then logs @ [no_schemas_line]
                           else logs)
               in (case migrate_schemas db schemas logs st1 of
                     ((None, logs), st2) \<Rightarrow> (JsonLogs None logs 200, st2)
                   | ((Some err, logs), st2) \<Rightarrow>
                       (JsonLogs None (logs @ [fatal_line err]) 200, st2))))"

section \<open>Homepage router (root route, src/src/index.ts)\<close>

definition homepage_type_sql :: string where
  "homepage_type_sql = ''SELECT value FROM core_settings WHERE key = '' @ [CHR 0x27] @ ''homepage_type'' @ [CHR 0x27]"

definition homepage_target_sql :: string where
  "homepage_target_sql = ''SELECT value FROM core_settings WHERE key = '' @ [CHR 0x27] @ ''homepage_target_id'' @ [CHR 0x27]"

definition static_page_sql :: string where
  "static_page_sql = ''SELECT * FROM static_pages WHERE id = ?''"

text \<open>\<^verbatim>\<open>setting?.value\<close>: the column \<^verbatim>\<open>value\<close> of the row, when there is a row.\<close>

definition setting_value :: "row option \<Rightarrow> string option" where
  "setting_value setting = (case setting of None \<Rightarrow> None | Some rw \<Rightarrow> map_of rw ''value'')"

text \<open>The page found, put into the template \<^verbatim>\<open>public_page\<close> or into the built-in one.\<close>

definition page_html :: "Registry \<Rightarrow> row \<Rightarrow> string" where
  "page_html r page =
     (let title = js_str (map_of page ''title'');
          content = js_str (map_of page ''content'');
          template = getView r ''public_page'';
          template = (if falsy template then
                        ''<!DOCTYPE html><html><head><title>'' @ title
                        @ ''</title><script src=\"https://cdn.tailwindcss.com\"></script></head><body class=\"p-10 prose max-w-none\"><h1>''
                        @ title @ ''</h1><div>'' @ content @ ''</div></body></html>''
                      else js_str template)
      in replace_first ''{{slug}}'' (js_str (map_of page ''slug'')) []
           (replace_first ''{{content}}'' content []
              (replace_first ''{{title}}'' title [] template)))"

text \<open>
  The \<^verbatim>\<open>try\<close> block of the root route. \<open>Inl\<close> is a thrown error, which the \<^verbatim>\<open>catch\<close>
  clause answers with the default landing page; the block throws
  \<^verbatim>\<open>Render Default Landing\<close> itself when no state applies. The inner \<^verbatim>\<open>catch\<close> around
  the page look-up logs a line in the registry. The clock reading \<open>time\<close> stamps the log
  lines of one request.
\<close>

definition root_try :: "'st D1Database \<Rightarrow> 'st \<Rightarrow> Registry \<Rightarrow> string \<Rightarrow> (js_error + response) \<times> Registry" where
  "root_try db st r time =
     (case findOne db homepage_type_sql [] st of
        Inl e \<Rightarrow> (Inl e, r)
      | Inr homeTypeSetting \<Rightarrow>
          (case findOne db homepage_target_sql [] st of
             Inl e \<Rightarrow> (Inl e, r)
           | Inr homeTargetSetting \<Rightarrow>
               let homeType = (if falsy (setting_value homeTypeSetting) then ''default''
                               else js_str (setting_value homeTypeSetting))
               in if homeType = ''blog'' then (Inr (Redirect ''/blog''), r)
                  else if homeType = ''page'' \<and> \<not> falsy (setting_value homeTargetSetting) then
                    (case findOne db static_page_sql [js_str (setting_value homeTargetSetting)] st of
                       Inl pageError \<Rightarrow>
                         (Inl (Error ''Render Default Landing''),
                          log r time ''Error: Page plugin missing or table not found.'')
                     | Inr None \<Rightarrow> (Inl (Error ''Render Default Landing''), r)
                     | Inr (Some page) \<Rightarrow> (Inr (Html (page_html r page) 200), r))
                  else (Inl (Error ''Render Default Landing''), r)))"



section \<open>A reference store\<close>

text \<open>
  A store to run the migrator against. It holds the ledger table \<^verbatim>\<open>_migrations\<close> (\<open>None\<close>
  until it is created) with its rows in insertion order, and the list of the schema
  statements it has executed, oldest first. It is deterministic: whether it accepts a
  statement, and how long the statement takes, is a function \<open>cost\<close> of the statements
  executed so far and of the statement; \<open>None\<close> is a rejected statement. Schema statements
  do not touch the ledger table, which only the migrator's own three queries read and
  write. A batch is one transaction: when a statement of it is rejected, none of it has
  run.
\<close>

record Store =
  ledger :: "(string \<times> string) list option"
  executed :: "string list"

definition store_exec ::
    "(string list \<Rightarrow> string \<Rightarrow> duration option) \<Rightarrow> string \<Rightarrow> Store \<Rightarrow> (js_error + duration option) \<times> Store" where
  "store_exec cost stmt st =
     (case cost (executed st) stmt of
        None \<Rightarrow> (Inl (Error (''D1_EXEC_ERROR: '' @ stmt)), st)
      | Some d \<Rightarrow> (Inr (Some d), st\<lparr>executed := executed st @ [stmt]\<rparr>))"

fun batch_steps ::
    "(string list \<Rightarrow> string \<Rightarrow> duration option) \<Rightarrow> string list \<Rightarrow> string list \<Rightarrow> (duration option list) option" where
  "batch_steps cost history [] = Some []"
| "batch_steps cost history (stmt # rest) =
     (case cost history stmt of
        None \<Rightarrow> None
      | Some d \<Rightarrow> map_option (\<lambda>ds. Some d # ds) (batch_steps cost (history @ [stmt]) rest))"

definition store_batch ::
    "(string list \<Rightarrow> string \<Rightarrow> duration option) \<Rightarrow> string list \<Rightarrow> Store
      \<Rightarrow> (js_error + duration option list) \<times> Store" where
  "store_batch cost stmts st =
     (case batch_steps cost (executed st) stmts of
        None \<Rightarrow> (Inl (Error ''D1_ERROR: batch failed''), st)
      | Some ds \<Rightarrow> (Inr ds, st\<lparr>executed := executed st @ stmts\<rparr>))"

definition store_first :: "string \<Rightarrow> string list \<Rightarrow> Store \<Rightarrow> js_error + row option" where
  "store_first query params st =
     (if query = select_migration_sql then
        (case (ledger st, params) of
           (Some rows, [s, v]) \<Rightarrow>
             Inr (if (s, v) \<in> set rows
                  then Some [(''id'', show_nat (Suc (length (takeWhile (\<lambda>p. p \<noteq> (s, v)) rows))))]
                  else None)
         | (Some rows, _) \<Rightarrow> Inl (Error ''D1_TYPE_ERROR: wrong number of parameters'')
         | (None, _) \<Rightarrow> Inl (Error ''D1_ERROR: no such table: _migrations''))
      else Inl (Error ''D1_ERROR: no such table''))"

definition store_all :: "string \<Rightarrow> string list \<Rightarrow> Store \<Rightarrow> js_error + row list option" where
  "store_all query params st = Inl (Error ''D1_ERROR: no such table'')"

definition store_run :: "string \<Rightarrow> string list \<Rightarrow> Store \<Rightarrow> (js_error + D1Meta option) \<times> Store" where
  "store_run query params st =
     (if query = create_migrations_sql then
        (Inr (Some \<lparr>D1Meta.duration = 0, changes = 0, last_row_id = 0, served_by = ''d1''\<rparr>),
         st\<lparr>ledger := Some (case ledger st of None \<Rightarrow> [] | Some rows \<Rightarrow> rows)\<rparr>)
      else if query = insert_migration_sql then
        (case (ledger st, params) of
           (Some rows, [s, v]) \<Rightarrow>
             if (s, v) \<in> set rows then
               (Inl (Error ''D1_ERROR: UNIQUE constraint failed: _migrations.slug, _migrations.version''), st)
             else
               (Inr (Some \<lparr>D1Meta.duration = 0, changes = 1, last_row_id = Suc (length rows), served_by = ''d1''\<rparr>),
                st\<lparr>ledger := Some (rows @ [(s, v)])\<rparr>)
         | (Some rows, _) \<Rightarrow> (Inl (Error ''D1_TYPE_ERROR: wrong number of parameters''), st)
         | (None, _) \<Rightarrow> (Inl (Error ''D1_ERROR: no such table: _migrations''), st))
      else (Inl (Error ''D1_ERROR: no such table''), st))"

definition reference_store :: "(string list \<Rightarrow> string \<Rightarrow> duration option) \<Rightarrow> Store D1Database" where
  "reference_store cost =
     \<lparr>d1_exec = store_exec cost, d1_batch = store_batch cost, d1_first = store_first,
      d1_all = store_all, d1_run = store_run\<rparr>"

section \<open>Example values\<close>

text \<open>A store on which nothing has been migrated, and stores that accept or reject every statement.\<close>

definition unmigrated :: Store where
  "unmigrated = \<lparr>ledger = None, executed = []\<rparr>"

definition fresh_ledger :: Store where
  "fresh_ledger = \<lparr>ledger = Some [], executed = []\<rparr>"


definition reject_all :: "string list \<Rightarrow> string \<Rightarrow> duration option" where
  "reject_all history stmt = None"

text \<open>A store whose reads answer with no row.\<close>

definition empty_tables :: "unit D1Database" where
  "empty_tables =
     \<lparr>d1_exec = (\<lambda>stmt st. (Inr None, st)),
      d1_batch = (\<lambda>stmts st. (Inr [], st)),
      d1_first = (\<lambda>query params st. Inr None),
      d1_all = (\<lambda>query params st. Inr (Some [])),
      d1_run = (\<lambda>query params st. (Inr None, st))\<rparr>"


text \<open>The registry after two modules have registered a schema each.\<close>

definition two_schemas :: Registry where
  "two_schemas =
     registerSchema
       (registerSchema initial_registry ''09:26:00'' ''blog'' ''1.0.0'' ''CREATE TABLE posts (id INTEGER)'')
       ''09:26:00'' ''shop'' ''1.0.0'' ''CREATE TABLE products (id INTEGER)''"

text \<open>A registry with one view, given as its pieces, and a data bag for it.\<close>

definition greeting_pieces :: "piece list" where
  "greeting_pieces =
     [Lit ''<p>'', Hole ''greeting'', Lit '', '', Hole ''name'', Lit ''! '', Hole ''unknown'',
      Lit '' '', Hole ''year'', Lit '' '', Hole ''theme_name'', Lit ''</p>'']"

definition greeting_registry :: Registry where
  "greeting_registry = registerView initial_registry ''greeting'' (flatten greeting_pieces)"

definition greeting_data :: "(string \<times> jsval) list" where
  "greeting_data = [(''greeting'', Str ''Hello''), (''name'', Str ''Ada''), (''unused'', Num 3)]"

section \<open>Verification\<close>

subsection \<open>Version texts and parseInt\<close>

lemma of_char_digit_char: "d < 10 \<Longrightarrow> (of_char (digit_char d) :: nat) = 48 + d"
  by (simp add: digit_char_def)

lemma is_digit_digit_char: "d < 10 \<Longrightarrow> is_digit (digit_char d)"
  by (simp add: is_digit_def of_char_digit_char)


lemma show_nat_digits: "c \<in> set (show_nat n) \<Longrightarrow> is_digit c"
proof (induction n arbitrary: c rule: show_nat.induct)
  case (1 n)
  show ?case
  proof (cases "n < 10")
    case True
    with "1.prems" show ?thesis
      by (auto simp: show_nat.simps [of n] is_digit_digit_char)
  next
    case False
    with "1.prems" have "c \<in> set (show_nat (n div 10)) \<or> c = digit_char (n mod 10)"
      by (auto simp: show_nat.simps [of n])
    then show ?thesis
      using "1.IH" [OF False] by (auto simp: is_digit_digit_char)
  qed
qed












subsection \<open>Manifest Validator\<close>

text \<open>
  Claim C3. A module whose manifest has no \<^verbatim>\<open>requires\<close> field is never admitted, whatever
  its slug, version and type and whatever kind is expected: \<open>validate\<close> returns a result
  with \<open>isValid = False\<close> that carries an error message. The verdict is the returned
  value; \<open>validate\<close> has no failing branch.
\<close>

theorem validate_rejects_missing_requires:
  assumes "manifest m = Some mf" and "requires mf = None"
  shows "isValid (validate (Some m) type) = False \<and> error (validate (Some m) type) \<noteq> None"
  using assms by (simp add: validate_def invalid_def falsy_def)

text \<open>
  The theorem at the manifest of the Indonesian language pack (plugin \<^verbatim>\<open>lang-id\<close>,
  version \<^verbatim>\<open>1.0.0\<close>), which declares \<^verbatim>\<open>minCoreVersion\<close> and no \<^verbatim>\<open>requires\<close>; the same
  manifest with \<^verbatim>\<open>requires: '1.0.0'\<close> is admitted.
\<close>

theorem validate_rejects_missing_requires_witness:
  "isValid (validate (Some \<lparr>manifest = Some \<lparr>slug = Some ''lang-id'', version = Some ''1.0.0'',
        mType = Some ''plugin'', requires = None\<rparr>\<rparr>) (Some ''plugin'')) = False
   \<and> isValid (validate (Some \<lparr>manifest = Some \<lparr>slug = Some ''lang-id'', version = Some ''1.0.0'',
        mType = Some ''plugin'', requires = Some ''1.0.0''\<rparr>\<rparr>) (Some ''plugin'')) = True"
proof -
  have "isValid (validate (Some \<lparr>manifest = Some \<lparr>slug = Some ''lang-id'', version = Some ''1.0.0'',
        mType = Some ''plugin'', requires = None\<rparr>\<rparr>) (Some ''plugin'')) = False"
    using validate_rejects_missing_requires
      [of "\<lparr>manifest = Some \<lparr>slug = Some ''lang-id'', version = Some ''1.0.0'',
        mType = Some ''plugin'', requires = None\<rparr>\<rparr>" "\<lparr>slug = Some ''lang-id'', version = Some ''1.0.0'',
        mType = Some ''plugin'', requires = None\<rparr>" "Some ''plugin''"]
    by simp
  moreover have "isValid (validate (Some \<lparr>manifest = Some \<lparr>slug = Some ''lang-id'', version = Some ''1.0.0'',
        mType = Some ''plugin'', requires = Some ''1.0.0''\<rparr>\<rparr>) (Some ''plugin'')) = True"
    by code_simp
  ultimately show ?thesis by simp
qed



subsection \<open>Database wrapper\<close>

lemma findOne_Inr: "findOne db query params st = Inr (case d1_first db query params st of Inl e \<Rightarrow> None | Inr res \<Rightarrow> res)"
  by (simp add: findOne_def split: sum.splits)

lemma findAll_Inr:
  "findAll db query params st =
     Inr (case d1_all db query params st of Inl e \<Rightarrow> [] | Inr None \<Rightarrow> [] | Inr (Some rs) \<Rightarrow> rs)"
  by (simp add: findAll_def split: sum.splits option.splits)

lemma root_try_registry: "snd (root_try db st r time) = r"
  by (simp add: root_try_def findOne_Inr Let_def split: option.splits)

text \<open>
  Claim C10. For every store, query and parameter list, \<open>findOne\<close> and \<open>findAll\<close> return
  and never throw. When the store's call throws, \<open>findOne\<close> returns \<^verbatim>\<open>null\<close> and
  \<open>findAll\<close> the empty list, which is also what they return for a read that matched no
  row: the caller sees the same value in both cases. In the root route the \<^verbatim>\<open>catch\<close>
  clause around the page look-up is therefore never entered, and the \<^verbatim>\<open>try\<close> block
  leaves the registry (where that clause would log) as it was.
\<close>

theorem findOne_findAll_never_throw:
  "(\<exists>res. findOne db query params st = Inr res)
   \<and> (\<exists>rows. findAll db query params st = Inr rows)
   \<and> (d1_first db query params st = Inl e \<longrightarrow> findOne db query params st = Inr None)
   \<and> (d1_first db query params st = Inr None \<longrightarrow> findOne db query params st = Inr None)
   \<and> (d1_all db query params st = Inl e \<longrightarrow> findAll db query params st = Inr [])
   \<and> (d1_all db query params st = Inr (Some []) \<longrightarrow> findAll db query params st = Inr [])
   \<and> snd (root_try db st r time) = r"
  by (simp add: findOne_Inr findAll_Inr root_try_registry)

text \<open>
  The theorem on a store with no tables, where every read throws, and on a store whose
  reads match no row: the four results are the same two values.
\<close>

theorem findOne_findAll_never_throw_witness:
  "findOne (reference_store reject_all) static_page_sql [''5''] unmigrated = Inr None
   \<and> findAll (reference_store reject_all) ''SELECT key, value FROM core_settings'' [] unmigrated = Inr []
   \<and> findOne empty_tables static_page_sql [''5''] () = Inr None
   \<and> findAll empty_tables ''SELECT key, value FROM core_settings'' [] () = Inr []"
proof -
  have h1: "d1_first (reference_store reject_all) static_page_sql [''5''] unmigrated
              = Inl (Error ''D1_ERROR: no such table'')"
    by code_simp
  have h2: "d1_all (reference_store reject_all) ''SELECT key, value FROM core_settings'' [] unmigrated
              = Inl (Error ''D1_ERROR: no such table'')"
    by code_simp
  have h3: "d1_first empty_tables static_page_sql [''5''] () = Inr None"
    by (simp add: empty_tables_def)
  have h4: "d1_all empty_tables ''SELECT key, value FROM core_settings'' [] () = Inr (Some [])"
    by (simp add: empty_tables_def)
  show ?thesis
    using findOne_findAll_never_throw
            [of "reference_store reject_all" static_page_sql "[''5'']" unmigrated
                "Error ''D1_ERROR: no such table''" initial_registry "''09:26:01''"]
          findOne_findAll_never_throw
            [of "reference_store reject_all" "''SELECT key, value FROM core_settings''" "[]" unmigrated
                "Error ''D1_ERROR: no such table''" initial_registry "''09:26:01''"]
          findOne_findAll_never_throw
            [of empty_tables static_page_sql "[''5'']" "()" "Error []" initial_registry "''09:26:01''"]
          findOne_findAll_never_throw
            [of empty_tables "''SELECT key, value FROM core_settings''" "[]" "()" "Error []" initial_registry "''09:26:01''"]
          h1 h2 h3 h4
    by simp
qed

subsection \<open>Registry\<close>

lemma falsy_simps [simp]: "falsy None" "falsy (Some s) = (s = [])"
  by (simp_all add: falsy_def)

lemma or_null_simps [simp]: "or_null None = None" "or_null (Some s) = (if s = [] then None else Some s)"
  by (simp_all add: or_null_def)

lemma templates_log [simp]: "templates (log r time msg) = templates r"
  by (simp add: log_def)

lemma activeTheme_setActiveTheme [simp]: "activeTheme (setActiveTheme r time name) = name"
  by (simp add: setActiveTheme_def log_def)

lemma templates_setActiveTheme [simp]: "templates (setActiveTheme r time name) = templates r"
  by (simp add: setActiveTheme_def)









text \<open>
  Claim C9. \<open>registerThemeView\<close> for the view \<^verbatim>\<open>landing\<close> writes the template at the
  theme-scoped key and at the bare key \<^verbatim>\<open>landing\<close>, whatever the bare key held; for any
  other view it writes the theme-scoped key only. Every other key of the table, and
  every other table of the registry, is left as it was.
\<close>

theorem registerThemeView_writes:
  "templates (registerThemeView r T ''landing'' H) = (templates r)(T @ '':landing'' \<mapsto> H, ''landing'' \<mapsto> H)
   \<and> (view \<noteq> ''landing'' \<longrightarrow>
        templates (registerThemeView r T view H) = (templates r)(T @ '':'' @ view \<mapsto> H))
   \<and> (k \<noteq> T @ '':'' @ view \<and> \<not> (view = ''landing'' \<and> k = ''landing'') \<longrightarrow>
        templates (registerThemeView r T view H) k = templates r k)
   \<and> menus (registerThemeView r T view H) = menus r
   \<and> schemas (registerThemeView r T view H) = schemas r
   \<and> activeTheme (registerThemeView r T view H) = activeTheme r
   \<and> pluginList (registerThemeView r T view H) = pluginList r
   \<and> systemLogs (registerThemeView r T view H) = systemLogs r
   \<and> translationsTable (registerThemeView r T view H) = translationsTable r"
  by (simp add: registerThemeView_def Let_def)

text \<open>
  The theorem on a registry that already holds a bare \<^verbatim>\<open>landing\<close> alias: registering
  \<^verbatim>\<open>landing\<close> for a theme overwrites the alias, registering \<^verbatim>\<open>settings\<close> keeps it.
\<close>

theorem registerThemeView_writes_witness:
  "templates (registerThemeView (registerView initial_registry ''landing'' ''<h1>Old</h1>'')
                ''nebula-theme'' ''landing'' ''<h1>Nebula</h1>'') ''landing'' = Some ''<h1>Nebula</h1>''
   \<and> templates (registerThemeView (registerView initial_registry ''landing'' ''<h1>Old</h1>'')
                ''nebula-theme'' ''landing'' ''<h1>Nebula</h1>'') ''nebula-theme:landing'' = Some ''<h1>Nebula</h1>''
   \<and> templates (registerThemeView (registerView initial_registry ''landing'' ''<h1>Old</h1>'')
                ''nebula-theme'' ''settings'' ''<h1>Settings</h1>'') ''landing'' = Some ''<h1>Old</h1>''
   \<and> templates (registerThemeView (registerView initial_registry ''landing'' ''<h1>Old</h1>'')
                ''nebula-theme'' ''settings'' ''<h1>Settings</h1>'') ''nebula-theme:settings'' = Some ''<h1>Settings</h1>''"
  using registerThemeView_writes [of "registerView initial_registry ''landing'' ''<h1>Old</h1>''"
          "''nebula-theme''" "''<h1>Nebula</h1>''" "''landing''" "''landing''"]
        registerThemeView_writes [of "registerView initial_registry ''landing'' ''<h1>Old</h1>''"
          "''nebula-theme''" "''<h1>Settings</h1>''" "''settings''" "''landing''"]
  by (simp add: registerView_def initial_registry_def)

subsection \<open>Migration engine\<close>

lemma raw_Inr: "\<exists>res st1. raw db sql st = (Inr res, st1)" for sql
  by (auto simp: raw_def Let_def split: prod.splits sum.splits)

lemma applyMigration_Inr: "\<exists>outcome st'. applyMigration db slug version sql st = (Inr outcome, st')"
  for slug version sql
  by (auto simp: applyMigration_def split: prod.splits sum.splits)

lemmas outcome_kinds = is_ERROR_def is_SUCCESS_def is_SKIP_def

lemma applyMigration_reported_failure:
  fixes slug version sql :: string
  assumes "findOne db select_migration_sql [slug, version] st = Inr None"
    and "raw db sql st = (Inr res, st1)" and "success res = Some False"
  shows "\<exists>outcome. applyMigration db slug version sql st = (Inr outcome, st1) \<and> is_ERROR outcome"
  using assms by (simp add: applyMigration_def applyMigration_try_def outcome_kinds)

lemma applyMigration_skip:
  fixes slug version sql :: string
  assumes "findOne db select_migration_sql [slug, version] st = Inr (Some rw)"
  shows "applyMigration db slug version sql st
           = (Inr (''[SKIP] '' @ slug @ '' v'' @ version @ '' is already applied.''), st)"
  using assms by (simp add: applyMigration_def applyMigration_try_def)

lemma migrate_schemas_lines:
  "\<exists>lines st'. migrate_schemas db ss logs st = ((None, logs @ lines), st') \<and> length lines = length ss"
proof (induction ss arbitrary: logs st)
  case Nil
  then show ?case by simp
next
  case (Cons s ss)
  have "\<exists>outcome st1. applyMigration db (MigrationSchema.slug s) (MigrationSchema.version s) (sql s) st = (Inr outcome, st1)"
    by (rule applyMigration_Inr)
  then obtain outcome st1 where a: "applyMigration db (MigrationSchema.slug s) (MigrationSchema.version s) (sql s) st = (Inr outcome, st1)"
    by blast
  obtain lines st' where b: "migrate_schemas db ss (logs @ [outcome_line outcome]) st1
       = ((None, (logs @ [outcome_line outcome]) @ lines), st')" and c: "length lines = length ss"
    using Cons.IH by blast
  have "migrate_schemas db (s # ss) logs st = ((None, logs @ (outcome_line outcome # lines)), st')"
    using a b by simp
  then show ?case using c by (metis length_Cons)
qed


lemma trim_empty_all_whitespace:
  assumes "trim s = []"
  shows "\<forall>c \<in> set s. js_whitespace c"
proof -
  have "dropWhile js_whitespace (rev (dropWhile js_whitespace s)) = []"
    using assms by (simp add: trim_def)
  then have "\<forall>c \<in> set (rev (dropWhile js_whitespace s)). js_whitespace c"
    by (simp add: dropWhile_eq_Nil_conv)
  then have a: "\<forall>c \<in> set (dropWhile js_whitespace s). js_whitespace c"
    by simp
  have "dropWhile js_whitespace s = []"
  proof (rule ccontr)
    assume ne: "dropWhile js_whitespace s \<noteq> []"
    then have "\<not> js_whitespace (hd (dropWhile js_whitespace s))"
      by (rule hd_dropWhile)
    moreover have "hd (dropWhile js_whitespace s) \<in> set (dropWhile js_whitespace s)"
      using ne by simp
    ultimately show False using a by blast
  qed
  then show ?thesis
    by (simp add: dropWhile_eq_Nil_conv)
qed

lemma split_on_absent: "sep \<notin> set s \<Longrightarrow> split_on sep s = [s]"
  by (induction s) auto

lemma splitStatements_blank:
  fixes sql :: string
  assumes "trim sql = []"
  shows "splitStatements sql = []"
proof -
  have "\<not> js_whitespace CHR '';''"
    by (simp add: js_whitespace_def)
  then have "CHR '';'' \<notin> set sql"
    using trim_empty_all_whitespace [OF assms] by blast
  then show ?thesis
    using assms by (simp add: splitStatements_def split_on_absent)
qed

lemma reference_store_sel [simp]:
  "d1_exec (reference_store cost) = store_exec cost"
  "d1_batch (reference_store cost) = store_batch cost"
  "d1_first (reference_store cost) = store_first"
  "d1_all (reference_store cost) = store_all"
  "d1_run (reference_store cost) = store_run"
  by (simp_all add: reference_store_def)

lemma singleton_nth: "length xs = 1 \<Longrightarrow> [xs ! 0] = xs"
  by (cases xs) auto

lemma raw_reference_store:
  fixes sql :: string
  assumes "raw (reference_store cost) sql S = (Inr res, S1)"
  shows "ledger S1 = ledger S
         \<and> (success res = Some False \<longrightarrow> S1 = S)
         \<and> (success res \<noteq> Some False \<longrightarrow> executed S1 = executed S @ splitStatements sql)"
proof (cases "sql = [] \<or> trim sql = []")
  case True
  then have "splitStatements sql = []"
    using splitStatements_blank by (auto simp: trim_def)
  then show ?thesis
    using assms True by (auto simp: raw_def)
next
  case False
  show ?thesis
  proof (cases "length (splitStatements sql) = 1")
    case True
    then show ?thesis
      using assms False singleton_nth [OF True]
      by (auto simp: raw_def Let_def store_exec_def split: option.splits)
  next
    case one: False
    then show ?thesis
      using assms False
      by (auto simp: raw_def Let_def store_batch_def split: option.splits)
  qed
qed

lemma store_first_ledger:
  "store_first select_migration_sql [s, v] S =
     (case ledger S of
        None \<Rightarrow> Inl (Error ''D1_ERROR: no such table: _migrations'')
      | Some rows \<Rightarrow>
          Inr (if (s, v) \<in> set rows
               then Some [(''id'', show_nat (Suc (length (takeWhile (\<lambda>p. p \<noteq> (s, v)) rows))))]
               else None))"
  by (simp add: store_first_def split: option.splits)




lemma raw_store_throws:
  fixes sql :: string
  assumes "trim sql \<noteq> []"
  shows "(length (splitStatements sql) = 1 \<and> d1_exec db (splitStatements sql ! 0) st = (Inl e, st1)
            \<longrightarrow> raw db sql st
                = (Inr \<lparr>count = 0, RawResult.duration = 0, success = Some False,
                        RawResult.error = Some (message e)\<rparr>, st1))
         \<and> (length (splitStatements sql) \<noteq> 1 \<and> d1_batch db (splitStatements sql) st = (Inl e, st1)
            \<longrightarrow> raw db sql st
                = (Inr \<lparr>count = 0, RawResult.duration = 0, success = Some False,
                        RawResult.error = Some (message e)\<rparr>, st1))"
proof -
  have "sql \<noteq> []"
    using assms by (auto simp: trim_def)
  then show ?thesis
    using assms by (simp add: raw_def Let_def)
qed

lemma system_migrate_lines:
  assumes "initSystem db st = (Inr u, st0)"
  shows "\<exists>lines st'.
           system_migrate (Some db) r st
             = (JsonLogs None
                  (ready_line
                   # (if schemas r = [] then [no_schemas_line] else [])
                   @ lines) 200, st')
           \<and> length lines = length (schemas r)"
proof -
  define logs where "logs = ready_line
                   # (if schemas r = [] then [no_schemas_line] else [])"
  obtain lines st' where m: "migrate_schemas db (schemas r) logs st0 = ((None, logs @ lines), st')"
    and n: "length lines = length (schemas r)"
    using migrate_schemas_lines [of db "schemas r" logs st0] by blast
  have "system_migrate (Some db) r st = (JsonLogs None (logs @ lines) 200, st')"
    using assms m by (cases "schemas r = []") (simp_all add: system_migrate_def getSchemas_def Let_def logs_def)
  then show ?thesis
    using n unfolding logs_def by auto
qed




text \<open>
  Claim C2. For every store: \<open>applyMigration\<close> returns an outcome text and never throws,
  and so does the executor \<open>raw\<close>, which reports a statement or batch that the store
  throws on as a failure. When the executor reports failure for a pair that is not
  applied, the outcome is an ERROR text and the call ends with the store as the executor
  left it. On the reference store a reported failure leaves the store, and so the
  ledger, as it was; the next run finds the pair missing and tries again. The sweep's loop adds one line for
  each registered schema whatever the outcomes are, and once \<open>initSystem\<close> has
  succeeded the answer of the sweep holds these lines.
\<close>

theorem applyMigration_failure_is_error:
  fixes slug version sql :: string
  shows "(\<exists>outcome st'. applyMigration db slug version sql st = (Inr outcome, st'))
   \<and> (\<exists>res0 st0. raw db sql st = (Inr res0, st0))
   \<and> (findOne db select_migration_sql [slug, version] st = Inr None
        \<and> raw db sql st = (Inr res, st1) \<and> success res = Some False
        \<longrightarrow> (\<exists>outcome. applyMigration db slug version sql st = (Inr outcome, st1) \<and> is_ERROR outcome))
   \<and> (trim sql \<noteq> [] \<and> length (splitStatements sql) = 1
        \<and> d1_exec db (splitStatements sql ! 0) st = (Inl e, st1)
        \<longrightarrow> raw db sql st
            = (Inr \<lparr>count = 0, RawResult.duration = 0, success = Some False,
                    RawResult.error = Some (message e)\<rparr>, st1))
   \<and> (trim sql \<noteq> [] \<and> length (splitStatements sql) \<noteq> 1
        \<and> d1_batch db (splitStatements sql) st = (Inl e, st1)
        \<longrightarrow> raw db sql st
            = (Inr \<lparr>count = 0, RawResult.duration = 0, success = Some False,
                    RawResult.error = Some (message e)\<rparr>, st1))
   \<and> (raw (reference_store cost) sql S = (Inr res', S1) \<and> success res' = Some False
        \<longrightarrow> snd (applyMigration (reference_store cost) slug version sql S) = S
            \<and> ledger (snd (applyMigration (reference_store cost) slug version sql S)) = ledger S)
   \<and> (\<exists>lines st'. migrate_schemas db ss logs st = ((None, logs @ lines), st')
                   \<and> length lines = length ss)
   \<and> (initSystem db st = (Inr u, st0)
        \<longrightarrow> (\<exists>lines st'.
               system_migrate (Some db) r st
                 = (JsonLogs None
                      (ready_line
                       # (if schemas r = [] then [no_schemas_line] else [])
                       @ lines) 200, st')
               \<and> length lines = length (schemas r)))"
proof -
  have p1: "\<exists>outcome st'. applyMigration db slug version sql st = (Inr outcome, st')"
    by (rule applyMigration_Inr)
  have p2: "\<exists>res0 st0. raw db sql st = (Inr res0, st0)"
    by (rule raw_Inr)
  have p3: "\<exists>outcome. applyMigration db slug version sql st = (Inr outcome, st1) \<and> is_ERROR outcome"
    if "findOne db select_migration_sql [slug, version] st = Inr None
        \<and> raw db sql st = (Inr res, st1) \<and> success res = Some False"
    using that applyMigration_reported_failure [of db slug version st sql res st1] by blast
  have p6: "snd (applyMigration (reference_store cost) slug version sql S) = S"
    if h: "raw (reference_store cost) sql S = (Inr res', S1) \<and> success res' = Some False"
  proof -
    have same: "S1 = S"
      using raw_reference_store [of cost sql S res' S1] h by blast
    show ?thesis
    proof (cases "findOne (reference_store cost) select_migration_sql [slug, version] S")
      case (Inl a)
      then show ?thesis by (simp add: findOne_Inr)
    next
      case (Inr found)
      show ?thesis
      proof (cases found)
        case None
        then obtain outcome where "applyMigration (reference_store cost) slug version sql S = (Inr outcome, S1)"
          using applyMigration_reported_failure [of "reference_store cost" slug version S sql res' S1] Inr h
          by blast
        then show ?thesis using same by simp
      next
        case (Some rw)
        then show ?thesis
          using applyMigration_skip [of "reference_store cost" slug version S rw sql] Inr by simp
      qed
    qed
  qed
  have p7: "\<exists>lines st'. migrate_schemas db ss logs st = ((None, logs @ lines), st')
                   \<and> length lines = length ss"
    by (rule migrate_schemas_lines)
  show ?thesis
    using p1 p2 p3 p6 p7 raw_store_throws [of sql db st e st1] system_migrate_lines [of db st u st0 r]
    by (intro conjI impI) (blast | simp)+
qed

text \<open>
  The theorem on a store that rejects every statement: the outcome is an ERROR text,
  the ledger is unchanged, and the sweep over two registered schemas logs two lines.
\<close>

theorem applyMigration_failure_is_error_witness:
  "(\<exists>outcome. applyMigration (reference_store reject_all) ''blog'' ''1.0.0''
                  ''CREATE TABLE posts (id INTEGER)'' fresh_ledger = (Inr outcome, fresh_ledger)
               \<and> is_ERROR outcome)
   \<and> ledger (snd (applyMigration (reference_store reject_all) ''blog'' ''1.0.0''
                  ''CREATE TABLE posts (id INTEGER)'' fresh_ledger)) = ledger fresh_ledger
   \<and> (\<exists>lines st'. system_migrate (Some (reference_store reject_all)) two_schemas unmigrated
                      = (JsonLogs None (ready_line # lines) 200, st')
                   \<and> length lines = 2)"
proof -
  have sp: "splitStatements ''CREATE TABLE posts (id INTEGER)'' = [''CREATE TABLE posts (id INTEGER)'']"
    by code_simp
  have ne: "trim ''CREATE TABLE posts (id INTEGER)'' \<noteq> []"
    by code_simp
  have h1: "findOne (reference_store reject_all) select_migration_sql [''blog'', ''1.0.0''] fresh_ledger = Inr None"
    by (simp add: findOne_Inr store_first_ledger fresh_ledger_def)
  have h2: "raw (reference_store reject_all) ''CREATE TABLE posts (id INTEGER)'' fresh_ledger
      = (Inr \<lparr>count = 0, RawResult.duration = 0, success = Some False,
              RawResult.error = Some (''D1_EXEC_ERROR: '' @ ''CREATE TABLE posts (id INTEGER)'')\<rparr>,
         fresh_ledger)"
    unfolding raw_def Let_def sp
    using ne by (simp add: store_exec_def reject_all_def)
  have h3: "success \<lparr>count = 0, RawResult.duration = 0, success = Some False,
              RawResult.error = Some (''D1_EXEC_ERROR: '' @ ''CREATE TABLE posts (id INTEGER)'')\<rparr> = Some False"
    by simp
  have h4: "initSystem (reference_store reject_all) unmigrated = (Inr (), fresh_ledger)"
    by (simp add: initSystem_def run_def store_run_def unmigrated_def fresh_ledger_def)
  have h5: "length (schemas two_schemas) = 2" "schemas two_schemas \<noteq> []"
    by (simp_all add: two_schemas_def registerSchema_def log_def initial_registry_def)
  note t1 = applyMigration_failure_is_error
             [where db = "reference_store reject_all" and slug = "''blog''" and version = "''1.0.0''"
                and sql = "''CREATE TABLE posts (id INTEGER)''" and st = fresh_ledger and ?st1.0 = fresh_ledger
                and res = "\<lparr>count = 0, RawResult.duration = 0, success = Some False,
                            RawResult.error = Some (''D1_EXEC_ERROR: '' @ ''CREATE TABLE posts (id INTEGER)'')\<rparr>"
                and cost = reject_all and S = fresh_ledger and ?S1.0 = fresh_ledger
                and res' = "\<lparr>count = 0, RawResult.duration = 0, success = Some False,
                            RawResult.error = Some (''D1_EXEC_ERROR: '' @ ''CREATE TABLE posts (id INTEGER)'')\<rparr>"]
  note t2 = applyMigration_failure_is_error
             [where db = "reference_store reject_all" and st = unmigrated and u = "()" and ?st0.0 = fresh_ledger
                and r = two_schemas]
  have a: "\<exists>outcome. applyMigration (reference_store reject_all) ''blog'' ''1.0.0''
                  ''CREATE TABLE posts (id INTEGER)'' fresh_ledger = (Inr outcome, fresh_ledger)
               \<and> is_ERROR outcome"
    using t1 h1 h2 h3 by blast
  have b: "ledger (snd (applyMigration (reference_store reject_all) ''blog'' ''1.0.0''
                  ''CREATE TABLE posts (id INTEGER)'' fresh_ledger)) = ledger fresh_ledger"
    using t1 h2 h3 by blast
  have c: "\<exists>lines st'. system_migrate (Some (reference_store reject_all)) two_schemas unmigrated
                      = (JsonLogs None (ready_line # lines) 200, st')
                   \<and> length lines = 2"
    using t2 h4 h5 by auto
  show ?thesis
    using a b c by blast
qed

subsection \<open>View engine\<close>

lemma expand_replacement_plain:
  "CHR ''$'' \<notin> set rep \<Longrightarrow> expand_replacement matched pre post rep = rep"
  by (induction matched pre post rep rule: expand_replacement.induct) auto

lemma replace_all_Nil [simp]: "replace_all pat rep pre [] = []"
  by (simp add: replace_all.simps)

lemma replace_all_skip:
  assumes "\<not> prefix pat (c # s)"
  shows "replace_all pat rep pre (c # s) = c # replace_all pat rep (pre @ [c]) s"
proof (cases "pat = []")
  case True
  then show ?thesis using assms by simp
next
  case False
  then show ?thesis
    using assms by (subst replace_all.simps) simp
qed

lemma replace_all_match:
  assumes "pat \<noteq> []" and "CHR ''$'' \<notin> set rep"
  shows "replace_all pat rep pre (pat @ s) = rep @ replace_all pat rep (pre @ pat) s"
  using assms by (subst replace_all.simps) (simp add: expand_replacement_plain)

text \<open>No match begins inside a text without the pattern's first character.\<close>

lemma replace_all_text:
  assumes "p \<notin> set t"
  shows "replace_all (p # pat) rep pre (t @ s) = t @ replace_all (p # pat) rep (pre @ t) s"
  using assms
proof (induction t arbitrary: pre)
  case Nil
  then show ?case by simp
next
  case (Cons c t)
  then have "\<not> prefix (p # pat) (c # t @ s)"
    by auto
  then have "replace_all (p # pat) rep pre (c # t @ s)
               = c # replace_all (p # pat) rep (pre @ [c]) (t @ s)"
    by (rule replace_all_skip)
  then show ?case
    using Cons by simp
qed

lemma key_prefix_unique:
  assumes "CHR ''}'' \<notin> set k" and "CHR ''}'' \<notin> set k'"
    and "prefix (k @ ''}}'') (k' @ ''}}'' @ s)"
  shows "k = k'"
  using assms
proof (induction k arbitrary: k')
  case Nil
  then show ?case by (cases k') auto
next
  case (Cons c k)
  then show ?case by (cases k') auto
qed

lemma replace_all_other_hole:
  assumes "k \<noteq> k'" and "CHR ''{'' \<notin> set k" and "CHR ''}'' \<notin> set k"
    and "CHR ''{'' \<notin> set k'" and "CHR ''}'' \<notin> set k'"
  shows "replace_all (''{{'' @ k @ ''}}'') rep pre (''{{'' @ k' @ ''}}'' @ s)
           = ''{{'' @ k' @ ''}}'' @ replace_all (''{{'' @ k @ ''}}'') rep (pre @ ''{{'' @ k' @ ''}}'') s"
proof -
  let ?pat = "''{{'' @ k @ ''}}''"
  have n0: "\<not> prefix ?pat (CHR ''{'' # CHR ''{'' # k' @ ''}}'' @ s)"
    using key_prefix_unique [OF assms(3,5)] assms(1) by auto
  have n1: "\<not> prefix ?pat (CHR ''{'' # k' @ ''}}'' @ s)"
    using assms(4) by (cases k') auto
  have tail: "CHR ''{'' \<notin> set (k' @ ''}}'')"
    using assms(4) by simp
  have "replace_all ?pat rep pre (''{{'' @ k' @ ''}}'' @ s)
          = CHR ''{'' # replace_all ?pat rep (pre @ ''{'') (CHR ''{'' # k' @ ''}}'' @ s)"
    using replace_all_skip [OF n0] by simp
  also have "\<dots> = CHR ''{'' # CHR ''{'' # replace_all ?pat rep (pre @ ''{{'') (k' @ ''}}'' @ s)"
    using replace_all_skip [OF n1] by simp
  also have "\<dots> = CHR ''{'' # CHR ''{'' # (k' @ ''}}'') @ replace_all ?pat rep (pre @ ''{{'' @ (k' @ ''}}'')) s"
    using replace_all_text [OF tail, of "CHR ''{'' # k @ ''}}''" rep "pre @ ''{{''" s] by simp
  finally show ?thesis by simp
qed

lemma replace_all_pieces:
  assumes "list_all separated ps" and "CHR ''{'' \<notin> set k" and "CHR ''}'' \<notin> set k"
    and "CHR ''$'' \<notin> set sv"
  shows "replace_all (''{{'' @ k @ ''}}'') sv pre (flatten ps) = flatten (map (fill_one k sv) ps)"
  using assms(1)
proof (induction ps arbitrary: pre)
  case Nil
  then show ?case by simp
next
  case (Cons p ps)
  then have rest: "\<And>pre. replace_all (''{{'' @ k @ ''}}'') sv pre (flatten ps) = flatten (map (fill_one k sv) ps)"
    by simp
  show ?case
  proof (cases p)
    case (Lit t)
    then have "CHR ''{'' \<notin> set t"
      using Cons.prems by simp
    then show ?thesis
      using replace_all_text [of "CHR ''{''" t "CHR ''{'' # k @ ''}}''" sv pre "flatten ps"] rest Lit
      by simp
  next
    case (Hole k')
    show ?thesis
    proof (cases "k' = k")
      case True
      then show ?thesis
        using replace_all_match [of "''{{'' @ k @ ''}}''" sv pre "flatten ps"] assms(4) rest Hole
        by simp
    next
      case False
      have "CHR ''{'' \<notin> set k'" "CHR ''}'' \<notin> set k'"
        using Cons.prems Hole by simp_all
      then show ?thesis
        using replace_all_other_hole [of k k' sv pre "flatten ps"] False assms(2,3) rest Hole
        by simp
    qed
  qed
qed


lemma literal_key_braces:
  assumes "literal_key k"
  shows "CHR ''{'' \<notin> set k" and "CHR ''}'' \<notin> set k"
  using assms by (auto simp: literal_key_def pattern_syntax_def list_all_iff)

lemma fill_one_separated:
  "list_all separated ps \<Longrightarrow> CHR ''{'' \<notin> set sv \<Longrightarrow> list_all separated (map (fill_one k sv) ps)"
proof (induction ps)
  case Nil
  then show ?case by simp
next
  case (Cons p ps)
  then show ?case by (cases p) auto
qed

lemma fill_step: "fill ((k, v) # data) p = fill data (fill_one k (String_of v) p)"
  by (cases p) auto

lemma substitute_pieces:
  assumes "list_all separated ps"
    and "list_all (\<lambda>(k, v). literal_key k \<and> plain_text (String_of v)) data"
  shows "substitute data (flatten ps) = Some (flatten (map (fill data) ps))"
  using assms
proof (induction data arbitrary: ps)
  case Nil
  have "map (fill []) ps = ps"
  proof (rule map_idI)
    fix p show "fill [] p = p" by (cases p) auto
  qed
  then show ?case by simp
next
  case (Cons kv data)
  obtain k v where kv: "kv = (k, v)" by (cases kv)
  have key: "literal_key k" and val: "plain_text (String_of v)"
    using Cons.prems(2) kv by simp_all
  have step: "replace_all (''{{'' @ k @ ''}}'') (String_of v) [] (flatten ps)
                = flatten (map (fill_one k (String_of v)) ps)"
    using replace_all_pieces [OF Cons.prems(1) literal_key_braces [OF key]] val
    by (simp add: plain_text_def)
  have sep: "list_all separated (map (fill_one k (String_of v)) ps)"
    using fill_one_separated [OF Cons.prems(1)] val by (simp add: plain_text_def)
  have "substitute (kv # data) (flatten ps)
          = substitute data (flatten (map (fill_one k (String_of v)) ps))"
    using key step kv by (simp add: placeholder_def)
  also have "\<dots> = Some (flatten (map (fill data) (map (fill_one k (String_of v)) ps)))"
    using Cons.IH [OF sep] Cons.prems(2) by simp
  also have "map (fill data) (map (fill_one k (String_of v)) ps) = map (fill (kv # data)) ps"
    by (simp add: kv fill_step)
  finally show ?case .
qed

lemma obj_put_all:
  "list_all P data \<Longrightarrow> P (key, v) \<Longrightarrow> list_all P (obj_put data key v)"
  by (induction data key v rule: obj_put.induct) auto

lemma show_int_plain: "plain_text (show_int i)"
proof -
  have "c \<noteq> CHR ''$'' \<and> c \<noteq> CHR ''{''" if "c \<in> set (show_nat n)" for c n
    using show_nat_digits [OF that] by (auto simp: is_digit_def)
  then show ?thesis
    by (auto simp: plain_text_def show_int_def)
qed

lemma getView_nonempty: "getView r view = Some t \<Longrightarrow> t \<noteq> []"
  by (auto simp: getView_def Let_def or_null_def falsy_def split: option.splits if_splits)

text \<open>
  Claim C8, as amended. Let the view resolve to a template made of runs of text without
  an opening brace and of placeholders \<^verbatim>\<open>{{key}}\<close> whose keys have no brace; let every
  key of the data bag be free of pattern syntax, and let the text of every value, and the
  active theme's name, have no dollar sign and no opening brace. Then \<open>render\<close> answers
  with status 200 and the template in which every placeholder of a key of the merged bag
  (the data with \<^verbatim>\<open>theme_name\<close> and \<^verbatim>\<open>year\<close> set) is replaced by the text of that key's
  value; a key with no placeholder changes nothing, and a placeholder whose key is not in
  the merged bag stays as it is.
\<close>

theorem render_substitutes:
  assumes "getView r viewName = Some (flatten ps)"
    and "list_all separated ps"
    and "list_all (\<lambda>(k, v). literal_key k \<and> plain_text (String_of v)) data"
    and "plain_text (activeTheme r)"
  shows "render r year viewName data
           = Some (Html (flatten (map (fill (obj_put (obj_put data ''theme_name'' (Str (activeTheme r)))
                                                     ''year'' (Num year))) ps)) 200)"
proof -
  let ?finalData = "obj_put (obj_put data ''theme_name'' (Str (activeTheme r))) ''year'' (Num year)"
  have k1: "literal_key ''theme_name''" and k2: "literal_key ''year''"
    by code_simp+
  have themed: "list_all (\<lambda>(k, v). literal_key k \<and> plain_text (String_of v))
          (obj_put data ''theme_name'' (Str (activeTheme r)))"
    by (rule obj_put_all [OF assms(3)]) (simp add: k1 assms(4))
  have final: "list_all (\<lambda>(k, v). literal_key k \<and> plain_text (String_of v)) ?finalData"
    by (rule obj_put_all [OF themed]) (simp add: k2 show_int_plain)
  have ne: "\<not> falsy (getView r viewName)"
    using getView_nonempty [OF assms(1)] assms(1) by (simp add: falsy_def)
  show ?thesis
    using ne assms(1) substitute_pieces [OF assms(2) final]
    by (simp add: render_def Let_def getActiveThemeName_def js_str_def)
qed

text \<open>
  The theorem on a view with five placeholders: two are keys of the data, two are the
  fields that are always there, one is unknown and stays; the key \<^verbatim>\<open>unused\<close> has no
  placeholder.
\<close>

theorem render_substitutes_witness:
  "render greeting_registry 2026 ''greeting'' greeting_data
     = Some (Html ''<p>Hello, Ada! {{unknown}} 2026 nebula</p>'' 200)"
proof -
  have h1: "getView greeting_registry ''greeting'' = Some (flatten greeting_pieces)"
    by (simp add: greeting_registry_def getView_def registerView_def initial_registry_def Let_def
          falsy_def or_null_def greeting_pieces_def)
  have h2: "list_all separated greeting_pieces"
    by (simp add: greeting_pieces_def)
  have h3: "list_all (\<lambda>(k, v). literal_key k \<and> plain_text (String_of v)) greeting_data"
    by code_simp
  have h4: "plain_text (activeTheme greeting_registry)"
    by (simp add: greeting_registry_def registerView_def initial_registry_def plain_text_def)
  have e: "flatten (map (fill (obj_put (obj_put greeting_data ''theme_name'' (Str (activeTheme greeting_registry)))
                                     ''year'' (Num 2026))) greeting_pieces)
             = ''<p>Hello, Ada! {{unknown}} 2026 nebula</p>''"
    by code_simp
  show ?thesis
    using render_substitutes [OF h1 h2 h3 h4, of 2026] unfolding e .
qed

text \<open>
  Claim C8 as stated fails outside these conditions. The keys are replaced one after the
  other in the current text, so a value that holds the placeholder of a later key is
  replaced again: \<^verbatim>\<open>{{a}}\<close> with \<^verbatim>\<open>a = '{{b}}'\<close> and \<^verbatim>\<open>b = 'x'\<close> renders \<^verbatim>\<open>x\<close>, not
  the value of \<^verbatim>\<open>a\<close>. And the value is a replacement text, in which \<^verbatim>\<open>$$\<close> stands for
  one dollar sign: the value \<^verbatim>\<open>$$5\<close> renders as \<^verbatim>\<open>$5\<close>.
\<close>

theorem render_not_verbatim_counterexample:
  "render (registerView initial_registry ''v'' ''{{a}}'') 2026 ''v'' [(''a'', Str ''{{b}}''), (''b'', Str ''x'')]
     = Some (Html ''x'' 200)
   \<and> render (registerView initial_registry ''v'' ''Total: {{price}}'') 2026 ''v'' [(''price'', Str ''$$5'')]
     = Some (Html ''Total: $5'' 200)"
  by code_simp

subsection \<open>Homepage router\<close>









end
